theory Spec2Isabelle
  imports Main "HOL-Library.Char_ord" "HOL-Library.List_Lexorder"
begin

section \<open>The schema: tables of the chat database\<close>

text \<open>
  The tables of the schema dump (\<open>CREATE TABLE "public"."messages"\<close> and its siblings)
  as records, one list of rows per table. Identifiers are \<open>text\<close> in \<open>messages\<close> and
  \<open>users\<close> and \<open>uuid\<close> in \<open>chat_groups\<close>; both are strings here, compared as text.
  Timestamps are integers (milliseconds since the epoch). Row-level security policies are
  not part of the model: every statement runs under a role the policies admit.
\<close>

type_synonym timestamptz = int

text \<open>The interface \<open>MediaInfo\<close> of the webhook payload.\<close>

record MediaInfo =
  mi_id :: string
  mime_type :: string
  sha256 :: string
  filename :: "string option"
  caption :: "string option"
  voice :: "bool option"

text \<open>
  The \<open>media_data\<close> column holds a JSON document. Its three shapes in the handlers:
  the media description of an inbound message (its \<open>type\<close>, the payload's media entry
  when there is one, and the resolved \<open>media_url\<close>), the template description of a
  template send (\<open>template_name\<close> and, for a broadcast, \<open>broadcast_group_id\<close>), and
  the \<open>broadcast_group_id\<close> marker of a broadcast text. The remaining keys of the
  documents are display data and are left out.
\<close>

datatype media_data =
    InboundMedia string "MediaInfo option" "string option"
  | TemplateMedia string "string option"
  | BroadcastMedia string

record message =
  m_id :: string
  sender_id :: string
  receiver_id :: string
  content :: string
  timestamp :: timestamptz
  is_sent_by_me :: bool
  message_type :: string
  media_data :: "media_data option"
  is_read :: bool
  read_at :: "timestamptz option"

record user =
  u_id :: string
  u_name :: string
  custom_name :: "string option"
  whatsapp_name :: "string option"
  last_active :: timestamptz

record chat_group =
  g_id :: string
  owner_id :: string
  g_name :: string
  description :: "string option"
  created_at :: timestamptz
  updated_at :: timestamptz

record group_member =
  gm_id :: string
  group_id :: string
  user_id :: string
  added_at :: timestamptz

text \<open>The rows of \<open>auth.users\<close> that the stored procedures read: id and phone.\<close>

record auth_user =
  au_id :: string
  phone :: "string option"

record db =
  users :: "user list"
  messages :: "message list"
  chat_groups :: "chat_group list"
  group_members :: "group_member list"
  auth_users :: "auth_user list"

section \<open>Stored procedures on the read state\<close>

text \<open>
  \<open>get_unread_count(user_id, other_user_id)\<close>:
  \<open>SELECT COUNT(*) FROM messages WHERE receiver_id = user_id AND sender_id = other_user_id
  AND is_read = FALSE\<close>.
\<close>

definition get_unread_count :: "string \<Rightarrow> string \<Rightarrow> db \<Rightarrow> nat" where
  "get_unread_count user_id' other_user_id d =
     length (filter (\<lambda>m. receiver_id m = user_id' \<and> sender_id m = other_user_id
                          \<and> is_read m = False) (messages d))"

text \<open>
  \<open>mark_messages_as_read(current_user_id, other_user_id)\<close>: the \<open>UPDATE\<close> sets
  \<open>is_read = TRUE, read_at = NOW()\<close> on the rows of the \<open>WHERE\<close> clause and the
  function returns \<open>ROW_COUNT\<close>. \<open>NOW()\<close> is the argument \<open>now\<close>.
\<close>

definition mark_messages_as_read :: "timestamptz \<Rightarrow> string \<Rightarrow> string \<Rightarrow> db \<Rightarrow> nat \<times> db" where
  "mark_messages_as_read now current_user_id other_user_id d =
     (let hit = (\<lambda>m. receiver_id m = current_user_id \<and> sender_id m = other_user_id
                        \<and> is_read m = False);
          affected_rows = length (filter hit (messages d))
      in (affected_rows,
          d\<lparr>messages := map (\<lambda>m. if hit m then m\<lparr>is_read := True, read_at := Some now\<rparr> else m)
                              (messages d)\<rparr>))"

section \<open>Appending to the message table\<close>

text \<open>
  What a handler passes to \<open>supabase.from('messages').insert([messageObject])\<close>. The keys
  \<open>is_read\<close>, \<open>message_type\<close> and \<open>media_data\<close> are absent in some handlers (\<open>None\<close>);
  the column default of the table then applies: \<open>is_read DEFAULT false\<close>,
  \<open>message_type DEFAULT 'text'\<close>, \<open>media_data\<close> and \<open>read_at\<close> null.
\<close>

record messageObject =
  mo_id :: string
  mo_sender_id :: string
  mo_receiver_id :: string
  mo_content :: string
  mo_timestamp :: timestamptz
  mo_is_sent_by_me :: bool
  mo_is_read :: "bool option"
  mo_message_type :: "string option"
  mo_media_data :: "media_data option"

text \<open>
  The errors of an insert: \<open>DuplicateMessage\<close> is the violation of the primary key
  \<open>messages_pkey\<close> on \<open>id\<close>, \<open>ForeignKeyViolation\<close> that of \<open>messages_sender_id_fkey\<close> or
  \<open>messages_receiver_id_fkey\<close> (both reference \<open>users(id)\<close>). The unique index is checked
  when the row is written, the foreign keys at the end of the statement.
\<close>

datatype error = DuplicateMessage | ForeignKeyViolation

definition row_of :: "messageObject \<Rightarrow> message" where
  "row_of mo =
     \<lparr>m_id = mo_id mo, sender_id = mo_sender_id mo, receiver_id = mo_receiver_id mo,
      content = mo_content mo, timestamp = mo_timestamp mo,
      is_sent_by_me = mo_is_sent_by_me mo,
      message_type = (case mo_message_type mo of None \<Rightarrow> ''text'' | Some t \<Rightarrow> t),
      media_data = mo_media_data mo,
      is_read = (case mo_is_read mo of None \<Rightarrow> False | Some b \<Rightarrow> b),
      read_at = None\<rparr>"

definition insert_message :: "messageObject \<Rightarrow> db \<Rightarrow> error + db" where
  "insert_message mo d =
     (if mo_id mo \<in> set (map m_id (messages d)) then Inl DuplicateMessage
      else if mo_sender_id mo \<notin> set (map u_id (users d))
              \<or> mo_receiver_id mo \<notin> set (map u_id (users d)) then Inl ForeignKeyViolation
      else Inr (d\<lparr>messages := messages d @ [row_of mo]\<rparr>))"

section \<open>The webhook: inbound messages\<close>

text \<open>The interfaces \<open>WhatsAppContact\<close> and \<open>WhatsAppMessage\<close> of the webhook payload.
  \<open>wm_timestamp\<close> is \<open>parseInt(message.timestamp)\<close>, \<open>None\<close> when it is not a number
  (\<open>toISOString\<close> then throws).\<close>

record WhatsAppContact =
  wa_id :: string
  profile_name :: "string option"

record WhatsAppMessage =
  wm_id :: string
  wm_from :: string
  wm_timestamp :: "int option"
  wm_type :: string
  text_body :: "string option"
  image :: "MediaInfo option"
  document :: "MediaInfo option"
  audio :: "MediaInfo option"
  video :: "MediaInfo option"
  sticker :: "MediaInfo option"

text \<open>JavaScript's \<open>v || dflt\<close> on an optional string: \<open>undefined\<close> and \<open>''\<close> are falsy.\<close>

definition js_or :: "string option \<Rightarrow> string \<Rightarrow> string" where
  "js_or v dflt = (case v of None \<Rightarrow> dflt | Some s \<Rightarrow> if s = [] then dflt else s)"

text \<open>\<open>processMessageContent\<close>: the content, the type and the media description.\<close>

definition processMessageContent ::
  "WhatsAppMessage \<Rightarrow> string \<times> string \<times> (string \<times> MediaInfo option) option" where
  "processMessageContent message =
     (if wm_type message = ''text'' then
        (js_or (text_body message) [], wm_type message, None)
      else if wm_type message = ''image'' then
        (js_or (Option.bind (image message) caption) ''[Image]'', wm_type message,
         Some (''image'', image message))
      else if wm_type message = ''document'' then
        (''[Document: '' @ js_or (Option.bind (document message) filename) ''Unknown'' @ '']'',
         wm_type message, Some (''document'', document message))
      else if wm_type message = ''audio'' then
        ((if Option.bind (audio message) voice = Some True then ''[Voice Message]''
          else ''[Audio]''),
         wm_type message, Some (''audio'', audio message))
      else if wm_type message = ''video'' then
        (js_or (Option.bind (video message) caption) ''[Video]'', wm_type message,
         Some (''video'', video message))
      else if wm_type message = ''sticker'' then
        (''[Sticker]'', wm_type message, Some (''sticker'', sticker message))
      else (''[Unsupported message type: '' @ wm_type message @ '']'', wm_type message, None))"

text \<open>
  The statements on \<open>users\<close> that the handlers issue: the lookup by id, the insert of a
  new row, the update of \<open>last_active\<close>, and the upsert \<open>onConflict: 'id'\<close>.
\<close>

definition find_user :: "string \<Rightarrow> db \<Rightarrow> user option" where
  "find_user i d = find (\<lambda>u. u_id u = i) (users d)"

definition insert_user :: "string \<Rightarrow> string \<Rightarrow> timestamptz \<Rightarrow> db \<Rightarrow> db" where
  "insert_user i n t d =
     d\<lparr>users := users d @ [\<lparr>u_id = i, u_name = n, custom_name = None,
                               whatsapp_name = None, last_active = t\<rparr>]\<rparr>"

definition update_last_active :: "string \<Rightarrow> timestamptz \<Rightarrow> db \<Rightarrow> db" where
  "update_last_active i t d =
     d\<lparr>users := map (\<lambda>u. if u_id u = i then u\<lparr>last_active := t\<rparr> else u) (users d)\<rparr>"

definition upsert_user :: "string \<Rightarrow> string \<Rightarrow> timestamptz \<Rightarrow> db \<Rightarrow> db" where
  "upsert_user i n t d =
     (case find_user i d of
        None \<Rightarrow> insert_user i n t d
      | Some _ \<Rightarrow> d\<lparr>users := map (\<lambda>u. if u_id u = i then u\<lparr>u_name := n, last_active := t\<rparr>
                                          else u) (users d)\<rparr>)"

text \<open>
  The receiver of an inbound message ("Find the receiver"):
  \<open>WHATSAPP_BUSINESS_OWNER_ID\<close> when it is set, else the first row of \<open>users\<close> other
  than the sender (\<open>.neq('id', phoneNumber).limit(1)\<close>, in table order), else the
  placeholder account, which is upserted.
\<close>

definition webhook_receiver ::
  "string option \<Rightarrow> string \<Rightarrow> timestamptz \<Rightarrow> db \<Rightarrow> string \<times> db" where
  "webhook_receiver businessOwnerId phoneNumber messageTimestamp d =
     (if js_or businessOwnerId [] \<noteq> [] then (js_or businessOwnerId [], d)
      else (case filter (\<lambda>u. u_id u \<noteq> phoneNumber) (users d) of
              u # _ \<Rightarrow> (u_id u, d)
            | [] \<Rightarrow> (''whatsapp-business-account'',
                     upsert_user ''whatsapp-business-account''
                       ''WhatsApp Business Account'' messageTimestamp d)))"

text \<open>
  One turn of the loop \<open>for (const message of messages)\<close> of the webhook's \<open>POST\<close>, after
  the timestamp has been read: the sender's row in \<open>users\<close> is created or refreshed, the
  receiver is found, and the message is inserted. An error of the insert is logged and
  the loop goes on; the result carries it. \<open>getMediaUrl\<close> is the argument of that name.
  The object inserted has no key \<open>is_read\<close>.
\<close>

definition webhook_message ::
  "string option \<Rightarrow> (string \<Rightarrow> string option) \<Rightarrow> WhatsAppContact list \<Rightarrow> WhatsAppMessage
     \<Rightarrow> timestamptz \<Rightarrow> db \<Rightarrow> db \<times> error option" where
  "webhook_message businessOwnerId getMediaUrl contacts message messageTimestamp d =
     (let phoneNumber = wm_from message;
          contact = find (\<lambda>c. wa_id c = phoneNumber) contacts;
          contactName = js_or (Option.bind contact profile_name) phoneNumber;
          (content', messageType, mediaData) = processMessageContent message;
          mediaUrl = (case mediaData of
                        Some (_, Some info) \<Rightarrow> if mi_id info = [] then None
                                                else getMediaUrl (mi_id info)
                      | _ \<Rightarrow> None);
          d1 = (case find_user phoneNumber d of
                  None \<Rightarrow> insert_user phoneNumber contactName messageTimestamp d
                | Some _ \<Rightarrow> update_last_active phoneNumber messageTimestamp d);
          (receiverId, d2) = webhook_receiver businessOwnerId phoneNumber messageTimestamp d1;
          messageObject =
            \<lparr>mo_id = wm_id message, mo_sender_id = phoneNumber, mo_receiver_id = receiverId,
             mo_content = content', mo_timestamp = messageTimestamp,
             mo_is_sent_by_me = False, mo_is_read = None,
             mo_message_type = Some messageType,
             mo_media_data = (case mediaData of
                                None \<Rightarrow> None
                              | Some (ty, info) \<Rightarrow> Some (InboundMedia ty info mediaUrl))\<rparr>
      in case insert_message messageObject d2 of
           Inl messageError \<Rightarrow> (d2, Some messageError)
         | Inr d3 \<Rightarrow> (d3, None))"

text \<open>
  The webhook's \<open>POST\<close>: the loop over the messages of the payload, then
  \<open>new NextResponse('OK', { status: 200 })\<close>. A timestamp that is not a number throws
  inside the loop and the \<open>catch\<close> answers 500; the rows written before stay. The third
  component lists, per message handled, the error of its insert.
\<close>

fun webhook_loop ::
  "string option \<Rightarrow> (string \<Rightarrow> string option) \<Rightarrow> WhatsAppContact list \<Rightarrow> WhatsAppMessage list
     \<Rightarrow> db \<Rightarrow> error option list \<Rightarrow> nat \<times> db \<times> error option list" where
  "webhook_loop businessOwnerId getMediaUrl contacts [] d lg = (200, d, lg)"
| "webhook_loop businessOwnerId getMediaUrl contacts (message # rest) d lg =
     (case wm_timestamp message of
        None \<Rightarrow> (500, d, lg)
      | Some secs \<Rightarrow>
          (let (d', e) = webhook_message businessOwnerId getMediaUrl contacts message
                           (secs * 1000) d
           in webhook_loop businessOwnerId getMediaUrl contacts rest d' (lg @ [e])))"

definition webhook_POST ::
  "string option \<Rightarrow> (string \<Rightarrow> string option) \<Rightarrow> WhatsAppContact list \<Rightarrow> WhatsAppMessage list
     \<Rightarrow> db \<Rightarrow> nat \<times> db \<times> error option list" where
  "webhook_POST businessOwnerId getMediaUrl contacts msgs d =
     webhook_loop businessOwnerId getMediaUrl contacts msgs d []"

section \<open>Reading a conversation\<close>

text \<open>
  \<open>ORDER BY\<close> and \<open>Array.prototype.sort\<close>: a stable insertion sort by a relation
  \<open>le a b\<close>, "a may stand before b". An element stays before the later elements it
  ties with.
\<close>

fun insort_by :: "('a \<Rightarrow> 'a \<Rightarrow> bool) \<Rightarrow> 'a \<Rightarrow> 'a list \<Rightarrow> 'a list" where
  "insort_by le x [] = [x]"
| "insort_by le x (y # ys) = (if le x y then x # y # ys else y # insort_by le x ys)"

definition sort_by :: "('a \<Rightarrow> 'a \<Rightarrow> bool) \<Rightarrow> 'a list \<Rightarrow> 'a list" where
  "sort_by le xs = foldr (insort_by le) xs []"

text \<open>
  \<open>get_conversation_messages(other_user_id, current_user_phone)\<close>: the rows of
  \<open>messages\<close> with \<open>sender_id = other_user_id OR receiver_id = other_user_id\<close>,
  \<open>ORDER BY timestamp ASC\<close>, each with \<open>is_sent_by_me\<close> replaced by
  \<open>sender_id != other_user_id\<close>. The parameter \<open>current_user_phone\<close> does not occur in
  the body.
\<close>

definition get_conversation_messages :: "string \<Rightarrow> string option \<Rightarrow> db \<Rightarrow> message list" where
  "get_conversation_messages other_user_id current_user_phone d =
     sort_by (\<lambda>a b. timestamp a \<le> timestamp b)
       (map (\<lambda>m. m\<lparr>is_sent_by_me := (sender_id m \<noteq> other_user_id)\<rparr>)
          (filter (\<lambda>m. sender_id m = other_user_id \<or> receiver_id m = other_user_id)
             (messages d)))"

text \<open>
  The query of the chat page (\<open>fetchMessages\<close>): both directions between the signed-in
  user and the selected contact, \<open>order('timestamp', { ascending: true })\<close>, the stored
  columns as they are.
\<close>

definition fetchMessages :: "string \<Rightarrow> string \<Rightarrow> db \<Rightarrow> message list" where
  "fetchMessages user_id' selectedUser_id d =
     sort_by (\<lambda>a b. timestamp a \<le> timestamp b)
       (filter (\<lambda>m. (sender_id m = user_id' \<and> receiver_id m = selectedUser_id)
                    \<or> (sender_id m = selectedUser_id \<and> receiver_id m = user_id'))
          (messages d))"

section \<open>The conversation list\<close>

text \<open>
  \<open>LIMIT 1\<close>, and the row that \<open>DISTINCT ON\<close> keeps of a group: the first row of the
  ordered rows, if there is one. Among rows that tie in the order, the sort keeps the
  table's order (SQL leaves this choice open).
\<close>

definition first_row :: "'a list \<Rightarrow> 'a option" where
  "first_row xs = (case xs of [] \<Rightarrow> None | x # _ \<Rightarrow> Some x)"

text \<open>
  The interface \<open>ChatUser\<close> of the user list, which is also the row type of the view
  \<open>user_conversations\<close> as the tracking migration creates it.
\<close>

record ChatUser =
  cu_id :: string
  cu_name :: string
  cu_last_active :: timestamptz
  cu_last_message :: "string option"
  cu_last_message_time :: "timestamptz option"
  cu_last_message_type :: "string option"
  cu_last_message_sender :: "string option"
  cu_unread_count :: "nat option"

text \<open>
  The view \<open>user_conversations\<close> of the tracking migration, for the session's
  \<open>auth.uid()\<close>: per user other than the caller, the latest message that involves the
  user and the count of the unread messages from the user to the caller. With no session
  \<open>auth.uid()\<close> is null, no row satisfies \<open>receiver_id = auth.uid()\<close> and the \<open>WHERE\<close>
  compares with \<open>''\<close>.
\<close>

definition user_conversations_migration :: "string option \<Rightarrow> db \<Rightarrow> ChatUser list" where
  "user_conversations_migration auth_uid d =
     remdups
       (map (\<lambda>u.
          (let latest_msg = first_row (sort_by (\<lambda>a b. timestamp b \<le> timestamp a)
                                        (filter (\<lambda>m. sender_id m = u_id u \<or> receiver_id m = u_id u)
                                           (messages d)));
               unread_count =
                 (case auth_uid of
                    None \<Rightarrow> 0
                  | Some uid \<Rightarrow> length (filter (\<lambda>m. receiver_id m = uid \<and> sender_id m = u_id u
                                                      \<and> is_read m = False) (messages d)))
           in \<lparr>cu_id = u_id u, cu_name = u_name u, cu_last_active = last_active u,
               cu_last_message = Some (case latest_msg of None \<Rightarrow> [] | Some m \<Rightarrow> content m),
               cu_last_message_time =
                 Some (case latest_msg of None \<Rightarrow> last_active u | Some m \<Rightarrow> timestamp m),
               cu_last_message_type =
                 Some (case latest_msg of None \<Rightarrow> ''text'' | Some m \<Rightarrow> message_type m),
               cu_last_message_sender =
                 Some (case latest_msg of None \<Rightarrow> [] | Some m \<Rightarrow> sender_id m),
               cu_unread_count = Some unread_count\<rparr>))
          (filter (\<lambda>u. u_id u \<noteq> (case auth_uid of None \<Rightarrow> [] | Some uid \<Rightarrow> uid)) (users d)))"

text \<open>
  The view \<open>user_conversations\<close> of the schema dump. Its first common table expression,
  \<open>unread_counts\<close>: \<open>SELECT sender_id, count(*) FROM messages WHERE is_read = false
  GROUP BY sender_id\<close>.
\<close>

definition unread_counts :: "db \<Rightarrow> (string \<times> nat) list" where
  "unread_counts d =
     (let unread = filter (\<lambda>m. is_read m = False) (messages d)
      in map (\<lambda>s. (s, length (filter (\<lambda>m. sender_id m = s) unread)))
             (remdups (map sender_id unread)))"

text \<open>
  Its second, \<open>latest_messages\<close>: \<open>SELECT DISTINCT ON (key) ... ORDER BY key, timestamp
  DESC\<close>, where the key of a message joins the smaller and the larger of \<open>sender_id\<close> and
  \<open>receiver_id\<close> with \<open>'-'\<close>. Text is compared byte by byte (the collation \<open>C\<close>).
\<close>

definition conversation_key :: "message \<Rightarrow> string" where
  "conversation_key m =
     (if sender_id m < receiver_id m then sender_id m @ ''-'' @ receiver_id m
      else receiver_id m @ ''-'' @ sender_id m)"

definition latest_messages :: "db \<Rightarrow> message list" where
  "latest_messages d =
     List.map_filter
       (\<lambda>k. first_row (sort_by (\<lambda>a b. timestamp b \<le> timestamp a)
                         (filter (\<lambda>m. conversation_key m = k) (messages d))))
       (sort_by (\<le>) (remdups (map conversation_key (messages d))))"

text \<open>The columns of the view.\<close>

record conversation =
  uc_id :: string
  display_name :: string
  uc_custom_name :: "string option"
  uc_whatsapp_name :: "string option"
  original_name :: string
  uc_last_active :: timestamptz
  unread_count :: nat
  last_message :: "string option"
  last_message_type :: "string option"
  last_message_time :: "timestamptz option"
  last_message_sender :: "string option"
  has_unread :: nat

text \<open>
  The order of the view: \<open>ORDER BY has_unread DESC, last_message_time DESC NULLS LAST\<close>.
\<close>

definition conversation_order :: "conversation \<Rightarrow> conversation \<Rightarrow> bool" where
  "conversation_order a b \<longleftrightarrow>
     has_unread a > has_unread b
     \<or> (has_unread a = has_unread b \<and>
        (case (last_message_time a, last_message_time b) of
           (Some s, Some t) \<Rightarrow> s \<ge> t
         | (Some s, None) \<Rightarrow> True
         | (None, Some t) \<Rightarrow> False
         | (None, None) \<Rightarrow> True))"

text \<open>
  The \<open>SELECT\<close> list of the view, for a row \<open>u\<close> of \<open>users\<close> joined with the count
  \<open>uc\<close> of \<open>unread_counts\<close> and the row \<open>lm\<close> of \<open>latest_messages\<close>, each null when the
  left join finds no partner.
\<close>

definition conversation_row :: "user \<Rightarrow> nat option \<Rightarrow> message option \<Rightarrow> conversation" where
  "conversation_row u uc lm =
     \<lparr>uc_id = u_id u,
      display_name = (case custom_name u of
                        Some n \<Rightarrow> n
                      | None \<Rightarrow> (case whatsapp_name u of Some n \<Rightarrow> n | None \<Rightarrow> u_name u)),
      uc_custom_name = custom_name u,
      uc_whatsapp_name = whatsapp_name u,
      original_name = u_name u,
      uc_last_active = last_active u,
      unread_count = (case uc of None \<Rightarrow> 0 | Some n \<Rightarrow> n),
      last_message = map_option content lm,
      last_message_type = map_option message_type lm,
      last_message_time = map_option timestamp lm,
      last_message_sender = map_option sender_id lm,
      has_unread = (case uc of None \<Rightarrow> 0 | Some n \<Rightarrow> if n > 0 then 1 else 0)\<rparr>"

text \<open>
  The view: \<open>users\<close> left-joined with \<open>unread_counts\<close> on the sender and with
  \<open>latest_messages\<close> on either party, \<open>SELECT DISTINCT\<close>, ordered.
\<close>

definition user_conversations :: "db \<Rightarrow> conversation list" where
  "user_conversations d =
     sort_by conversation_order
       (remdups
          (concat
             (map (\<lambda>u.
                (let uc = map_of (unread_counts d) (u_id u);
                     lms = filter (\<lambda>lm. u_id u = sender_id lm \<or> u_id u = receiver_id lm)
                             (latest_messages d)
                 in if lms = [] then [conversation_row u uc None]
                    else map (\<lambda>lm. conversation_row u uc (Some lm)) lms))
              (users d))))"

text \<open>
  \<open>sortedUsers\<close> of the user list: the rows other than the current user, sorted by the
  comparator of the component. \<open>x || 0\<close> reads an absent count as 0, and
  \<open>a.last_message_time || a.last_active\<close> an absent time as the last activity.
\<close>

definition msg_time :: "ChatUser \<Rightarrow> timestamptz" where
  "msg_time a = (case cu_last_message_time a of None \<Rightarrow> cu_last_active a | Some t \<Rightarrow> t)"

definition unread_or_0 :: "ChatUser \<Rightarrow> nat" where
  "unread_or_0 a = (case cu_unread_count a of None \<Rightarrow> 0 | Some n \<Rightarrow> n)"

definition sortedUsers_compare :: "ChatUser \<Rightarrow> ChatUser \<Rightarrow> int" where
  "sortedUsers_compare a b =
     (if unread_or_0 a > 0 \<and> unread_or_0 b = 0 then - 1
      else if unread_or_0 a = 0 \<and> unread_or_0 b > 0 then 1
      else msg_time b - msg_time a)"

definition sortedUsers :: "string \<Rightarrow> ChatUser list \<Rightarrow> ChatUser list" where
  "sortedUsers currentUserId us =
     sort_by (\<lambda>a b. sortedUsers_compare a b \<le> 0)
       (filter (\<lambda>u. cu_id u \<noteq> currentUserId) us)"

section \<open>Groups\<close>













section \<open>Outbound sends\<close>

text \<open>
  The answer of the provider to a send: \<open>fetch\<close> throws, or there is a response with a
  status and, in its body, the id of the message when the provider gives one
  (\<open>responseData.messages?.[0]?.id\<close>). \<open>response.ok\<close> is a status from 200 to 299.
\<close>

datatype provider_response = FetchFailed | Response nat "string option"

definition ok :: "nat \<Rightarrow> bool" where
  "ok status \<longleftrightarrow> 200 \<le> status \<and> status \<le> 299"

text \<open>The signed-in account, as \<open>supabase.auth.getUser()\<close> returns it.\<close>

record auth_session =
  as_id :: string
  full_name :: "string option"
  email :: "string option"

text \<open>
  The \<open>POST\<close> of the route \<open>send-message\<close>. \<open>configured\<close> says that the phone number id
  and the access token are set; \<open>timestamp'\<close> is \<open>new Date()\<close> and \<open>generated\<close> the id
  \<open>outgoing_...\<close> made up when the provider returns none. The result is the HTTP status
  and the database. The object inserted has no key \<open>is_read\<close>.
\<close>

definition send_message_POST ::
  "auth_session option \<Rightarrow> bool \<Rightarrow> string option \<Rightarrow> string option \<Rightarrow> provider_response
     \<Rightarrow> timestamptz \<Rightarrow> string \<Rightarrow> db \<Rightarrow> nat \<times> db" where
  "send_message_POST user configured to message whatsappResponse timestamp' generated d =
     (case user of
        None \<Rightarrow> (401, d)
      | Some user \<Rightarrow>
          if js_or to [] = [] \<or> js_or message [] = [] then (400, d)
          else if \<not> configured then (500, d)
          else (case whatsappResponse of
                  FetchFailed \<Rightarrow> (500, d)
                | Response status messageId \<Rightarrow>
                    if \<not> ok status then (status, d)
                    else
                      (let messageObject =
                             \<lparr>mo_id = js_or messageId generated, mo_sender_id = as_id user,
                              mo_receiver_id = js_or to [], mo_content = js_or message [],
                              mo_timestamp = timestamp', mo_is_sent_by_me = True,
                              mo_is_read = None, mo_message_type = Some ''text'',
                              mo_media_data = None\<rparr>;
                           d1 = (case insert_message messageObject d of
                                   Inl dbError \<Rightarrow> d
                                 | Inr d' \<Rightarrow> d');
                           d2 = upsert_user (as_id user)
                                  (js_or (full_name user) (js_or (email user) ''Unknown User''))
                                  timestamp' d1
                       in (200, d2))))"

text \<open>
  \<open>handleSendMessage\<close> of the chat page: it posts to \<open>send-message\<close>; when the answer is
  not ok it throws, and the \<open>catch\<close> stores \<open>fallbackMessage\<close> with the client's own
  insert ("Fallback: Store in database only if WhatsApp API fails"). \<open>fallback_id\<close> is the
  id \<open>fallback_...\<close> and \<open>now\<close> the client's \<open>new Date()\<close>. The result says whether the
  failure was reported to the user, and the database.
\<close>

definition handleSendMessage ::
  "auth_session \<Rightarrow> string \<Rightarrow> string \<Rightarrow> bool \<Rightarrow> provider_response \<Rightarrow> timestamptz \<Rightarrow> string
     \<Rightarrow> timestamptz \<Rightarrow> string \<Rightarrow> db \<Rightarrow> bool \<times> db" where
  "handleSendMessage user selectedUser_id content' configured whatsappResponse timestamp' generated
       now fallback_id d =
     (let (status, d1) = send_message_POST (Some user) configured (Some selectedUser_id)
                           (Some content') whatsappResponse timestamp' generated d
      in if ok status then (False, d1)
         else
           (let fallbackMessage =
                  \<lparr>mo_id = fallback_id, mo_sender_id = as_id user,
                   mo_receiver_id = selectedUser_id, mo_content = content',
                   mo_timestamp = now, mo_is_sent_by_me = True, mo_is_read = None,
                   mo_message_type = Some ''text'', mo_media_data = None\<rparr>
            in case insert_message fallbackMessage d1 of
                 Inl dbError \<Rightarrow> (True, d1)
               | Inr d2 \<Rightarrow> (True, d2)))"

text \<open>
  The \<open>POST\<close> of the route \<open>send-template\<close> with the credentials of the configured
  account \<open>userId\<close>. \<open>settings\<close> says whether the account's token and phone number id
  are there. The recipient's row in \<open>users\<close> is created before the send;
  \<open>sendTemplateMessagev2\<close> throws when the response is not ok, and the handler when the
  response carries no message id; the \<open>catch\<close> answers 500. \<open>now\<close> is the time of
  the row in \<open>users\<close>, \<open>timestamp'\<close> that of the message.
\<close>

definition send_template_POST ::
  "string \<Rightarrow> bool \<Rightarrow> string option \<Rightarrow> string option \<Rightarrow> string option \<Rightarrow> string option
     \<Rightarrow> provider_response \<Rightarrow> timestamptz \<Rightarrow> timestamptz \<Rightarrow> db \<Rightarrow> nat \<times> db" where
  "send_template_POST userId settings to templateName customer_name text' response now
       timestamp' d =
     (if js_or to [] = [] \<or> js_or templateName [] = [] then (400, d)
      else if \<not> settings then (400, d)
      else
        (let d1 = (case find_user (js_or to []) d of
                     None \<Rightarrow> insert_user (js_or to []) (js_or customer_name (js_or to [])) now d
                   | Some _ \<Rightarrow> d)
         in case response of
              FetchFailed \<Rightarrow> (500, d1)
            | Response status messageId \<Rightarrow>
                if \<not> ok status then (500, d1)
                else if js_or messageId [] = [] then (500, d1)
                else
                  (let messageObject =
                         \<lparr>mo_id = js_or messageId [], mo_sender_id = userId,
                          mo_receiver_id = js_or to [],
                          mo_content = js_or text' (js_or templateName []),
                          mo_timestamp = timestamp', mo_is_sent_by_me = True,
                          mo_is_read = Some True, mo_message_type = Some ''template'',
                          mo_media_data = Some (TemplateMedia (js_or templateName []) None)\<rparr>
                   in case insert_message messageObject d1 of
                        Inl dbError \<Rightarrow> (200, d1)
                      | Inr d2 \<Rightarrow> (200, d2))))"

text \<open>
  The broadcast to a group. \<open>cleanPhoneNumber\<close> is the member's id without its
  non-digits (\<open>replace(/\s+/g, '').replace(/[^\d]/g, '')\<close>).
\<close>

definition digits :: "string \<Rightarrow> string" where
  "digits s = filter (\<lambda>c. c \<in> set ''0123456789'') s"

record results =
  success :: nat
  failed :: nat

text \<open>
  One turn of the loop \<open>for (const member of members)\<close>. With a template name and
  template data the template is sent, otherwise the text. \<open>rendered\<close> is the body of the
  template with its variables replaced, when there is one; \<open>response\<close> the provider's
  answer for this member; \<open>generated\<close> the id made up when the provider returns none.
  A text broadcast without \<open>message\<close> would store the content \<open>undefined\<close>, which
  \<open>content NOT NULL\<close> rejects.
\<close>

definition broadcast_member ::
  "auth_session \<Rightarrow> string \<Rightarrow> string option \<Rightarrow> string option \<Rightarrow> bool \<Rightarrow> string option
     \<Rightarrow> timestamptz \<Rightarrow> timestamptz \<Rightarrow> (string \<Rightarrow> provider_response) \<Rightarrow> (string \<Rightarrow> string)
     \<Rightarrow> group_member \<Rightarrow> results \<times> db \<Rightarrow> results \<times> db" where
  "broadcast_member user groupId message templateName templateData rendered timestamp' now
       response generated member acc =
     (let (res, d) = acc;
          cleanPhoneNumber = digits (user_id member)
      in if js_or templateName [] \<noteq> [] \<and> templateData then
           (case response (user_id member) of
              FetchFailed \<Rightarrow> (res\<lparr>failed := failed res + 1\<rparr>, d)
            | Response status messageId \<Rightarrow>
                if ok status then
                  (let messageObject =
                         \<lparr>mo_id = js_or messageId (generated (user_id member)),
                          mo_sender_id = as_id user, mo_receiver_id = cleanPhoneNumber,
                          mo_content =
                            (case rendered of
                               Some body \<Rightarrow> body
                             | None \<Rightarrow> js_or message (''Template: '' @ js_or templateName [])),
                          mo_timestamp = timestamp', mo_is_sent_by_me = True,
                          mo_is_read = Some True, mo_message_type = Some ''template'',
                          mo_media_data =
                            Some (TemplateMedia (js_or templateName []) (Some groupId))\<rparr>
                   in (res\<lparr>success := success res + 1\<rparr>,
                       (case insert_message messageObject d of
                          Inl dbError \<Rightarrow> d
                        | Inr d' \<Rightarrow> d')))
                else (res\<lparr>failed := failed res + 1\<rparr>, d))
         else
           (let d1 = (case find_user cleanPhoneNumber d of
                        None \<Rightarrow> insert_user cleanPhoneNumber cleanPhoneNumber now d
                      | Some _ \<Rightarrow> d)
            in case response (user_id member) of
                 FetchFailed \<Rightarrow> (res\<lparr>failed := failed res + 1\<rparr>, d1)
               | Response status messageId \<Rightarrow>
                   if ok status then
                     (let d2 = upsert_user cleanPhoneNumber cleanPhoneNumber timestamp' d1
                      in (res\<lparr>success := success res + 1\<rparr>,
                          (case message of
                             None \<Rightarrow> d2
                           | Some content' \<Rightarrow>
                               (let messageObject =
                                      \<lparr>mo_id = js_or messageId (generated (user_id member)),
                                       mo_sender_id = as_id user,
                                       mo_receiver_id = cleanPhoneNumber,
                                       mo_content = content', mo_timestamp = timestamp',
                                       mo_is_sent_by_me = True, mo_is_read = Some True,
                                       mo_message_type = Some ''text'',
                                       mo_media_data = Some (BroadcastMedia groupId)\<rparr>
                                in case insert_message messageObject d2 of
                                     Inl dbError \<Rightarrow> d2
                                   | Inr d' \<Rightarrow> d'))))
                   else (res\<lparr>failed := failed res + 1\<rparr>, d1)))"

text \<open>
  The \<open>POST\<close> of the broadcast route: the checks (session, input, ownership of the group,
  members, credentials), then the loop, then the summary with status 200.
\<close>

definition broadcast_POST ::
  "auth_session option \<Rightarrow> string \<Rightarrow> string option \<Rightarrow> string option \<Rightarrow> bool \<Rightarrow> string option
     \<Rightarrow> bool \<Rightarrow> timestamptz \<Rightarrow> timestamptz \<Rightarrow> (string \<Rightarrow> provider_response)
     \<Rightarrow> (string \<Rightarrow> string) \<Rightarrow> db \<Rightarrow> nat \<times> results \<times> db" where
  "broadcast_POST user groupId message templateName templateData rendered settings timestamp'
       now response generated d =
     (case user of
        None \<Rightarrow> (401, \<lparr>success = 0, failed = 0\<rparr>, d)
      | Some user \<Rightarrow>
          if js_or message [] = [] \<and> js_or templateName [] = [] then
            (400, \<lparr>success = 0, failed = 0\<rparr>, d)
          else if find (\<lambda>g. g_id g = groupId \<and> owner_id g = as_id user) (chat_groups d) = None
          then (404, \<lparr>success = 0, failed = 0\<rparr>, d)
          else if filter (\<lambda>gm. group_id gm = groupId) (group_members d) = [] then
            (400, \<lparr>success = 0, failed = 0\<rparr>, d)
          else if \<not> settings then (400, \<lparr>success = 0, failed = 0\<rparr>, d)
          else
            (let (res, d') =
                   fold (broadcast_member user groupId message templateName templateData
                           rendered timestamp' now response generated)
                     (filter (\<lambda>gm. group_id gm = groupId) (group_members d))
                     (\<lparr>success = 0, failed = 0\<rparr>, d)
             in (200, res, d')))"

text \<open>The invariant of the data model: no message has its sender as its receiver.\<close>

definition two_parties :: "db \<Rightarrow> bool" where
  "two_parties d \<longleftrightarrow> list_all (\<lambda>m. sender_id m \<noteq> receiver_id m) (messages d)"

section \<open>Importing contacts from a spreadsheet\<close>



definition endsWith :: "string \<Rightarrow> string \<Rightarrow> bool" where
  "endsWith s t \<longleftrightarrow> length t \<le> length s \<and> drop (length s - length t) s = t"

















section \<open>Example data\<close>

text \<open>
  A small database for the concrete checks: the operator accounts \<open>owner-1\<close> and
  \<open>owner-2\<close>, the contact \<open>15551234567\<close> and a second contact, no messages yet; and the
  inbound text \<open>Hi\<close> with the provider's id \<open>wamid.AAA\<close>.
\<close>

definition ex_user :: "string \<Rightarrow> user" where
  "ex_user i = \<lparr>u_id = i, u_name = i, custom_name = None, whatsapp_name = None,
                 last_active = 0\<rparr>"

definition ex_db :: db where
  "ex_db = \<lparr>users = [ex_user ''owner-1'', ex_user ''owner-2'', ex_user ''15551234567'',
                     ex_user ''15559990000''],
            messages = [], chat_groups = [], group_members = [], auth_users = []\<rparr>"

definition ex_row :: "string \<Rightarrow> string \<Rightarrow> string \<Rightarrow> timestamptz \<Rightarrow> bool \<Rightarrow> message" where
  "ex_row i s r t rd =
     \<lparr>m_id = i, sender_id = s, receiver_id = r, content = ''Hi'', timestamp = t,
      is_sent_by_me = False, message_type = ''text'', media_data = None,
      is_read = rd, read_at = None\<rparr>"

definition ex_inbound :: WhatsAppMessage where
  "ex_inbound = \<lparr>wm_id = ''wamid.AAA'', wm_from = ''15551234567'', wm_timestamp = Some 1700,
                  wm_type = ''text'', text_body = Some ''Hi'', image = None, document = None,
                  audio = None, video = None, sticker = None\<rparr>"


text \<open>The database after the webhook has stored \<open>ex_inbound\<close> for the account \<open>owner-2\<close>.\<close>

definition ex_db_delivered :: db where
  "ex_db_delivered =
     ex_db\<lparr>users := [ex_user ''owner-1'', ex_user ''owner-2'',
                      (ex_user ''15551234567'')\<lparr>last_active := 1700000\<rparr>,
                      ex_user ''15559990000''],
            messages := [ex_row ''wamid.AAA'' ''15551234567'' ''owner-2'' 1700000 False]\<rparr>"

text \<open>
  A database in which the contact \<open>15551234567\<close> has written to \<open>owner-1\<close> and the
  account \<open>owner-2\<close> has written to the contact.
\<close>

definition ex_db_two_owners :: db where
  "ex_db_two_owners =
     ex_db\<lparr>messages := [ex_row ''wamid.AAA'' ''15551234567'' ''owner-1'' 100 False,
                         ex_row ''wamid.CCC'' ''owner-2'' ''15551234567'' 200 True]\<rparr>"

text \<open>
  A database in which the contact \<open>15551234567\<close> has one read message to \<open>owner-1\<close> at
  time 100 and the contact \<open>15559990000\<close> has no message and was last active at 900.
\<close>

definition ex_db_idle :: db where
  "ex_db_idle =
     ex_db\<lparr>users := [ex_user ''owner-1'', (ex_user ''15551234567'')\<lparr>last_active := 100\<rparr>,
                      (ex_user ''15559990000'')\<lparr>last_active := 900\<rparr>],
            messages := [ex_row ''wamid.AAA'' ''15551234567'' ''owner-1'' 100 True]\<rparr>"

text \<open>
  Rows for the user list: the current user, a contact with two unread messages and an
  old last message, a contact without any message that was active at 900, and a contact
  whose last message is of 100.
\<close>

definition ex_chat_user :: "string \<Rightarrow> timestamptz \<Rightarrow> timestamptz option \<Rightarrow> nat option \<Rightarrow> ChatUser" where
  "ex_chat_user i la t n =
     \<lparr>cu_id = i, cu_name = i, cu_last_active = la, cu_last_message = None,
      cu_last_message_time = t, cu_last_message_type = None,
      cu_last_message_sender = None, cu_unread_count = n\<rparr>"

definition ex_chat_users :: "ChatUser list" where
  "ex_chat_users =
     [ex_chat_user ''owner-1'' 0 None None,
      ex_chat_user ''15551234567'' 100 (Some 100) (Some 0),
      ex_chat_user ''15559990000'' 900 None None,
      ex_chat_user ''15557770000'' 50 (Some 50) (Some 2)]"


text \<open>The session of the operator \<open>owner-1\<close>.\<close>

definition ex_session :: auth_session where
  "ex_session = \<lparr>as_id = ''owner-1'', full_name = None, email = Some ''op@example.com''\<rparr>"




section \<open>Read state: marking a conversation read\<close>

lemma mark_read_no_hit_after:
  "filter (\<lambda>m. receiver_id m = u \<and> sender_id m = c \<and> is_read m = False)
     (map (\<lambda>m. if receiver_id m = u \<and> sender_id m = c \<and> is_read m = False
                then m\<lparr>is_read := True, read_at := Some now\<rparr> else m) ms) = []"
  by (induction ms) auto

lemma mark_read_map_idem:
  "map (\<lambda>m. if receiver_id m = u \<and> sender_id m = c \<and> is_read m = False
             then m\<lparr>is_read := True, read_at := Some now'\<rparr> else m)
     (map (\<lambda>m. if receiver_id m = u \<and> sender_id m = c \<and> is_read m = False
                then m\<lparr>is_read := True, read_at := Some now\<rparr> else m) ms)
   = map (\<lambda>m. if receiver_id m = u \<and> sender_id m = c \<and> is_read m = False
               then m\<lparr>is_read := True, read_at := Some now\<rparr> else m) ms"
  by (induction ms) auto

text \<open>
  C2. \<open>mark_messages_as_read\<close> returns the number of rows of the predicate
  (receiver = owner, sender = counterparty, unread), which is the unread count before the
  call; it sets \<open>is_read\<close> and \<open>read_at = now\<close> on exactly these rows and leaves every
  other row and every other table as it was; a second call, at any later time, returns 0
  and leaves the database, and so every \<open>read_at\<close>, unchanged.
\<close>

theorem mark_messages_as_read_exact:
  assumes "mark_messages_as_read now u c d = (n, d')"
  shows "n = get_unread_count u c d
       \<and> length (messages d') = length (messages d)
       \<and> (\<forall>i < length (messages d).
            (receiver_id (messages d ! i) = u \<and> sender_id (messages d ! i) = c
               \<and> \<not> is_read (messages d ! i)
             \<longrightarrow> messages d' ! i = (messages d ! i)\<lparr>is_read := True, read_at := Some now\<rparr>)
          \<and> (\<not> (receiver_id (messages d ! i) = u \<and> sender_id (messages d ! i) = c
               \<and> \<not> is_read (messages d ! i))
             \<longrightarrow> messages d' ! i = messages d ! i))
       \<and> users d' = users d \<and> chat_groups d' = chat_groups d
       \<and> group_members d' = group_members d \<and> auth_users d' = auth_users d
       \<and> get_unread_count u c d' = 0
       \<and> mark_messages_as_read now' u c d' = (0, d')"
proof -
  from assms have n: "n = get_unread_count u c d"
    and d': "d' = d\<lparr>messages := map (\<lambda>m. if receiver_id m = u \<and> sender_id m = c \<and> is_read m = False
                                          then m\<lparr>is_read := True, read_at := Some now\<rparr> else m)
                                    (messages d)\<rparr>"
    by (auto simp: mark_messages_as_read_def get_unread_count_def Let_def)
  have zero: "get_unread_count u c d' = 0"
    unfolding d' get_unread_count_def by (simp add: mark_read_no_hit_after)
  have again: "mark_messages_as_read now' u c d' = (0, d')"
    unfolding d' mark_messages_as_read_def Let_def
    by (simp add: mark_read_no_hit_after mark_read_map_idem)
  have rows: "\<forall>i < length (messages d).
            (receiver_id (messages d ! i) = u \<and> sender_id (messages d ! i) = c
               \<and> \<not> is_read (messages d ! i)
             \<longrightarrow> messages d' ! i = (messages d ! i)\<lparr>is_read := True, read_at := Some now\<rparr>)
          \<and> (\<not> (receiver_id (messages d ! i) = u \<and> sender_id (messages d ! i) = c
               \<and> \<not> is_read (messages d ! i))
             \<longrightarrow> messages d' ! i = messages d ! i)"
    unfolding d' by simp
  show ?thesis
    using n zero again rows unfolding d' by simp
qed

theorem mark_messages_as_read_exact_witness:
  "mark_messages_as_read 900 ''owner-1'' ''15551234567''
     (ex_db\<lparr>messages := [ex_row ''wamid.AAA'' ''15551234567'' ''owner-1'' 100 False,
                          ex_row ''wamid.BBB'' ''15559990000'' ''owner-1'' 200 False]\<rparr>)
   = (1, ex_db\<lparr>messages := [(ex_row ''wamid.AAA'' ''15551234567'' ''owner-1'' 100 False)
                                \<lparr>is_read := True, read_at := Some 900\<rparr>,
                              ex_row ''wamid.BBB'' ''15559990000'' ''owner-1'' 200 False]\<rparr>)
   \<and> get_unread_count ''owner-1'' ''15551234567''
       (ex_db\<lparr>messages := [ex_row ''wamid.AAA'' ''15551234567'' ''owner-1'' 100 False,
                            ex_row ''wamid.BBB'' ''15559990000'' ''owner-1'' 200 False]\<rparr>) = 1
   \<and> mark_messages_as_read 950 ''owner-1'' ''15551234567''
       (ex_db\<lparr>messages := [(ex_row ''wamid.AAA'' ''15551234567'' ''owner-1'' 100 False)
                                \<lparr>is_read := True, read_at := Some 900\<rparr>,
                              ex_row ''wamid.BBB'' ''15559990000'' ''owner-1'' 200 False]\<rparr>)
     = (0, ex_db\<lparr>messages := [(ex_row ''wamid.AAA'' ''15551234567'' ''owner-1'' 100 False)
                                \<lparr>is_read := True, read_at := Some 900\<rparr>,
                              ex_row ''wamid.BBB'' ''15559990000'' ''owner-1'' 200 False]\<rparr>)"
proof -
  have h: "mark_messages_as_read 900 ''owner-1'' ''15551234567''
     (ex_db\<lparr>messages := [ex_row ''wamid.AAA'' ''15551234567'' ''owner-1'' 100 False,
                          ex_row ''wamid.BBB'' ''15559990000'' ''owner-1'' 200 False]\<rparr>)
   = (1, ex_db\<lparr>messages := [(ex_row ''wamid.AAA'' ''15551234567'' ''owner-1'' 100 False)
                                \<lparr>is_read := True, read_at := Some 900\<rparr>,
                              ex_row ''wamid.BBB'' ''15559990000'' ''owner-1'' 200 False]\<rparr>)"
    by (simp add: mark_messages_as_read_def Let_def ex_row_def)
  show ?thesis
    using mark_messages_as_read_exact [OF h, of 950] h by simp
qed

section \<open>Message store: duplicate deliveries\<close>

lemma messages_insert_user [simp]: "messages (insert_user i n t d) = messages d"
  by (simp add: insert_user_def)

lemma messages_update_last_active [simp]: "messages (update_last_active i t d) = messages d"
  by (simp add: update_last_active_def)

lemma messages_upsert_user [simp]: "messages (upsert_user i n t d) = messages d"
  by (simp add: upsert_user_def split: option.splits)




section \<open>The sort\<close>

lemma set_insort_by [simp]: "set (insort_by le x ys) = insert x (set ys)"
  by (induction ys) auto

lemma length_insort_by [simp]: "length (insort_by le x ys) = Suc (length ys)"
  by (induction ys) auto

lemma set_sort_by [simp]: "set (sort_by le xs) = set xs"
  by (induction xs) (auto simp: sort_by_def)

lemma length_sort_by [simp]: "length (sort_by le xs) = length xs"
  by (induction xs) (auto simp: sort_by_def)

lemma sorted_insort_by:
  assumes total: "\<And>a b. le a b \<or> le b a"
    and trans: "\<And>a b c. le a b \<Longrightarrow> le b c \<Longrightarrow> le a c"
    and "sorted_wrt le ys"
  shows "sorted_wrt le (insort_by le x ys)"
  using assms(3)
proof (induction ys)
  case Nil
  then show ?case by simp
next
  case (Cons y ys)
  show ?case
  proof (cases "le x y")
    case True
    then show ?thesis using Cons.prems trans by auto
  next
    case False
    then have "le y x" using total by blast
    then show ?thesis using Cons False by auto
  qed
qed

lemma sorted_sort_by:
  assumes total: "\<And>a b. le a b \<or> le b a"
    and trans: "\<And>a b c. le a b \<Longrightarrow> le b c \<Longrightarrow> le a c"
  shows "sorted_wrt le (sort_by le xs)"
proof (induction xs)
  case Nil
  then show ?case by (simp add: sort_by_def)
next
  case (Cons x xs)
  have "sort_by le (x # xs) = insort_by le x (sort_by le xs)"
    by (simp add: sort_by_def)
  then show ?case
    using sorted_insort_by [of le "sort_by le xs" x] total trans Cons by simp
qed

section \<open>Unread counts: the list and the conversation\<close>

lemma map_of_unread_counts:
  "map_of (unread_counts d) s =
     (if s \<in> sender_id ` set (filter (\<lambda>m. is_read m = False) (messages d))
      then Some (length (filter (\<lambda>m. sender_id m = s)
                           (filter (\<lambda>m. is_read m = False) (messages d))))
      else None)"
proof -
  have "map_of (map (\<lambda>s. (s, f s)) ks) s = (if s \<in> set ks then Some (f s) else None)"
    for f :: "string \<Rightarrow> nat" and ks
    by (induction ks) auto
  then show ?thesis
    by (simp add: unread_counts_def Let_def)
qed

lemma filter_sender_empty:
  "s \<notin> sender_id ` set (filter P ms) \<Longrightarrow> filter (\<lambda>m. sender_id m = s \<and> P m) ms = []"
  by (induction ms) (auto split: if_splits)

text \<open>
  The column \<open>unread_count\<close> of the view of the schema dump counts the unread messages
  that the row's user has sent, to whatever receiver.
\<close>

lemma user_conversations_unread_count:
  assumes "r \<in> set (user_conversations d)"
  shows "unread_count r
         = length (filter (\<lambda>m. sender_id m = uc_id r \<and> is_read m = False) (messages d))"
proof -
  from assms have
    r: "unread_count r = (case map_of (unread_counts d) (uc_id r) of None \<Rightarrow> 0 | Some n \<Rightarrow> n)"
    by (auto simp: user_conversations_def conversation_row_def Let_def split: if_splits)
  show ?thesis
    using r filter_sender_empty [of "uc_id r" "\<lambda>m. is_read m = False" "messages d"]
    by (simp add: map_of_unread_counts filter_filter conj_commute)
qed

text \<open>
  The view of the tracking migration counts with the predicate of \<open>get_unread_count\<close>
  for the session's user.
\<close>

lemma user_conversations_migration_unread_count:
  assumes "r \<in> set (user_conversations_migration (Some x) d)"
  shows "cu_unread_count r = Some (get_unread_count x (cu_id r) d)"
  using assms
  by (auto simp: user_conversations_migration_def get_unread_count_def Let_def)

text \<open>
  C1. The unread count of a counterparty in the list (the column \<open>unread_count\<close> of the
  view \<open>user_conversations\<close>) is to equal \<open>get_unread_count(owner, counterparty)\<close> for
  every owner. The view of the schema dump breaks this: the webhook stores the inbound
  message \<open>wamid.AAA\<close> of the contact \<open>15551234567\<close> for the account \<open>owner-2\<close>; the
  view then lists the contact with \<open>unread_count = 1\<close>, while
  \<open>get_unread_count('owner-1', '15551234567')\<close> is 0, as is the count of the view of the
  tracking migration for the session of \<open>owner-1\<close>.
\<close>

theorem user_conversations_unread_drift:
  "webhook_POST (Some ''owner-2'') (\<lambda>_. None) [] [ex_inbound] ex_db
     = (200, ex_db_delivered, [None])
   \<and> map unread_count
        (filter (\<lambda>r. uc_id r = ''15551234567'') (user_conversations ex_db_delivered)) = [1]
   \<and> get_unread_count ''owner-1'' ''15551234567'' ex_db_delivered = 0
   \<and> map cu_unread_count
        (filter (\<lambda>r. cu_id r = ''15551234567'')
           (user_conversations_migration (Some ''owner-1'') ex_db_delivered)) = [Some 0]"
proof -
  have 1: "webhook_POST (Some ''owner-2'') (\<lambda>_. None) [] [ex_inbound] ex_db
     = (200, ex_db_delivered, [None])"
    by (simp add: webhook_POST_def webhook_message_def webhook_receiver_def ex_inbound_def
        ex_db_def ex_user_def
        ex_row_def ex_db_delivered_def processMessageContent_def js_or_def find_user_def
        update_last_active_def insert_message_def row_of_def Let_def)
  have 2: "map unread_count
        (filter (\<lambda>r. uc_id r = ''15551234567'') (user_conversations ex_db_delivered)) = [1]"
    by code_simp
  have 3: "get_unread_count ''owner-1'' ''15551234567'' ex_db_delivered = 0"
    by code_simp
  have 4: "map cu_unread_count
        (filter (\<lambda>r. cu_id r = ''15551234567'')
           (user_conversations_migration (Some ''owner-1'') ex_db_delivered)) = [Some 0]"
    by code_simp
  show ?thesis using 1 2 3 4 by simp
qed

section \<open>Reading a conversation\<close>

lemma get_conversation_messages_sorted:
  "sorted_wrt (\<lambda>a b. timestamp a \<le> timestamp b) (get_conversation_messages other cur d)"
  unfolding get_conversation_messages_def
  by (rule sorted_sort_by) auto

lemma get_conversation_messages_rows:
  "set (get_conversation_messages other cur d)
   = (\<lambda>m. m\<lparr>is_sent_by_me := (sender_id m \<noteq> other)\<rparr>)
       ` {m \<in> set (messages d). sender_id m = other \<or> receiver_id m = other}"
  by (auto simp: get_conversation_messages_def)

lemma fetchMessages_rows:
  "set (fetchMessages a b d)
   = {m \<in> set (messages d). (sender_id m = a \<and> receiver_id m = b)
                            \<or> (sender_id m = b \<and> receiver_id m = a)}"
  by (auto simp: fetchMessages_def)

text \<open>
  C3. The conversation of two parties is to hold exactly the messages between the two, in
  ascending order of time, with \<open>is_sent_by_me\<close> true exactly for the caller's own
  messages. \<open>get_conversation_messages\<close> breaks this: in a database where the contact
  \<open>15551234567\<close> has a message to \<open>owner-1\<close> and one from \<open>owner-2\<close>,
  \<open>get_conversation_messages('15551234567', 'owner-1')\<close> returns both messages, the
  second with \<open>is_sent_by_me = true\<close> although \<open>owner-2\<close> sent it; the query of the chat
  page for \<open>owner-1\<close> and the contact returns the first message only.
\<close>

theorem get_conversation_messages_third_party:
  "map (\<lambda>m. (m_id m, sender_id m, receiver_id m, is_sent_by_me m))
     (get_conversation_messages ''15551234567'' (Some ''owner-1'') ex_db_two_owners)
   = [(''wamid.AAA'', ''15551234567'', ''owner-1'', False),
      (''wamid.CCC'', ''owner-2'', ''15551234567'', True)]
   \<and> map m_id (fetchMessages ''owner-1'' ''15551234567'' ex_db_two_owners) = [''wamid.AAA'']"
  by (simp add: get_conversation_messages_def fetchMessages_def ex_db_two_owners_def
      ex_db_def ex_row_def sort_by_def)

section \<open>The order of the conversation list\<close>

lemma sortedUsers_compare_le:
  "sortedUsers_compare a b \<le> 0 \<longleftrightarrow>
     (unread_or_0 a > 0 \<and> unread_or_0 b = 0)
     \<or> ((unread_or_0 a > 0 \<longleftrightarrow> unread_or_0 b > 0) \<and> msg_time b \<le> msg_time a)"
  by (auto simp: sortedUsers_compare_def)

lemma sortedUsers_sorted:
  "sorted_wrt (\<lambda>a b. sortedUsers_compare a b \<le> 0) (sortedUsers cur us)"
  unfolding sortedUsers_def
proof (rule sorted_sort_by)
  show "sortedUsers_compare a b \<le> 0 \<or> sortedUsers_compare b a \<le> 0" for a b
    unfolding sortedUsers_compare_le by auto
  show "sortedUsers_compare a c \<le> 0"
    if "sortedUsers_compare a b \<le> 0" "sortedUsers_compare b c \<le> 0" for a b c
    using that unfolding sortedUsers_compare_le by auto
qed

lemma conversation_order_sorted:
  "sorted_wrt conversation_order (user_conversations d)"
  unfolding user_conversations_def
proof (rule sorted_sort_by)
  show "conversation_order a b \<or> conversation_order b a" for a b
    by (auto simp: conversation_order_def split: option.splits)
  show "conversation_order a c" if "conversation_order a b" "conversation_order b c" for a b c
    using that by (auto simp: conversation_order_def split: option.splits)
qed

lemma user_conversations_has_unread:
  assumes "r \<in> set (user_conversations d)"
  shows "has_unread r = (if unread_count r > 0 then 1 else 0)"
proof -
  from assms obtain u uc lm where "r = conversation_row u uc lm"
    by (auto simp: user_conversations_def Let_def split: if_splits)
  then show ?thesis
    by (cases uc) (simp_all add: conversation_row_def)
qed

text \<open>
  C6, amended. The list of the user interface, \<open>sortedUsers\<close>, holds the rows other than
  the current user; in it a row with unread messages stands before every row without,
  within a tier the row with the later time stands first, and the time of a row without
  a last message is its last activity. The view \<open>user_conversations\<close> of the schema
  dump orders its rows by the same two tiers and, within a tier, by the time of the last
  message, latest first; a row without a last message stands after every row of its tier
  that has one, whatever its last activity.
\<close>

theorem conversation_list_order:
  "set (sortedUsers cur us) = {u \<in> set us. cu_id u \<noteq> cur}
   \<and> (\<forall>i j. i < j \<and> j < length (sortedUsers cur us) \<longrightarrow>
         (unread_or_0 (sortedUsers cur us ! j) > 0 \<longrightarrow> unread_or_0 (sortedUsers cur us ! i) > 0)
       \<and> ((unread_or_0 (sortedUsers cur us ! i) > 0 \<longleftrightarrow> unread_or_0 (sortedUsers cur us ! j) > 0)
            \<longrightarrow> msg_time (sortedUsers cur us ! j) \<le> msg_time (sortedUsers cur us ! i)))
   \<and> (\<forall>u. cu_last_message_time u = None \<longrightarrow> msg_time u = cu_last_active u)
   \<and> (\<forall>u t. cu_last_message_time u = Some t \<longrightarrow> msg_time u = t)
   \<and> (\<forall>i j. i < j \<and> j < length (user_conversations d) \<longrightarrow>
         (unread_count (user_conversations d ! j) > 0
            \<longrightarrow> unread_count (user_conversations d ! i) > 0)
       \<and> ((unread_count (user_conversations d ! i) > 0
              \<longleftrightarrow> unread_count (user_conversations d ! j) > 0)
            \<longrightarrow> (case (last_message_time (user_conversations d ! i),
                        last_message_time (user_conversations d ! j)) of
                   (Some s, Some t) \<Rightarrow> t \<le> s
                 | (None, Some t) \<Rightarrow> False
                 | _ \<Rightarrow> True)))"
proof -
  have a: "set (sortedUsers cur us) = {u \<in> set us. cu_id u \<noteq> cur}"
    by (auto simp: sortedUsers_def)
  have b: "(unread_or_0 (sortedUsers cur us ! j) > 0 \<longrightarrow> unread_or_0 (sortedUsers cur us ! i) > 0)
       \<and> ((unread_or_0 (sortedUsers cur us ! i) > 0 \<longleftrightarrow> unread_or_0 (sortedUsers cur us ! j) > 0)
            \<longrightarrow> msg_time (sortedUsers cur us ! j) \<le> msg_time (sortedUsers cur us ! i))"
    if "i < j" "j < length (sortedUsers cur us)" for i j
  proof -
    have "sortedUsers_compare (sortedUsers cur us ! i) (sortedUsers cur us ! j) \<le> 0"
      using sortedUsers_sorted [of cur us] that by (simp add: sorted_wrt_iff_nth_less)
    then show ?thesis unfolding sortedUsers_compare_le by auto
  qed
  have c: "(\<forall>u. cu_last_message_time u = None \<longrightarrow> msg_time u = cu_last_active u)
   \<and> (\<forall>u t. cu_last_message_time u = Some t \<longrightarrow> msg_time u = t)"
    by (simp add: msg_time_def)
  have e: "(unread_count (user_conversations d ! j) > 0
            \<longrightarrow> unread_count (user_conversations d ! i) > 0)
       \<and> ((unread_count (user_conversations d ! i) > 0
              \<longleftrightarrow> unread_count (user_conversations d ! j) > 0)
            \<longrightarrow> (case (last_message_time (user_conversations d ! i),
                        last_message_time (user_conversations d ! j)) of
                   (Some s, Some t) \<Rightarrow> t \<le> s
                 | (None, Some t) \<Rightarrow> False
                 | _ \<Rightarrow> True))"
    if "i < j" "j < length (user_conversations d)" for i j
  proof -
    let ?a = "user_conversations d ! i" and ?b = "user_conversations d ! j"
    have o: "conversation_order ?a ?b"
      using conversation_order_sorted [of d] that by (simp add: sorted_wrt_iff_nth_less)
    have "?a \<in> set (user_conversations d)" "?b \<in> set (user_conversations d)"
      using that by simp_all
    then have h: "has_unread ?a = (if unread_count ?a > 0 then 1 else 0)"
      "has_unread ?b = (if unread_count ?b > 0 then 1 else 0)"
      by (simp_all only: user_conversations_has_unread)
    show ?thesis
      using o unfolding conversation_order_def h
      by (auto split: option.splits if_splits)
  qed
  show ?thesis
  proof (intro conjI)
    show "set (sortedUsers cur us) = {u \<in> set us. cu_id u \<noteq> cur}" by (rule a)
  next
    show "\<forall>i j. i < j \<and> j < length (sortedUsers cur us) \<longrightarrow>
         (unread_or_0 (sortedUsers cur us ! j) > 0 \<longrightarrow> unread_or_0 (sortedUsers cur us ! i) > 0)
       \<and> ((unread_or_0 (sortedUsers cur us ! i) > 0 \<longleftrightarrow> unread_or_0 (sortedUsers cur us ! j) > 0)
            \<longrightarrow> msg_time (sortedUsers cur us ! j) \<le> msg_time (sortedUsers cur us ! i))"
      by (intro allI impI, elim conjE, rule b)
  next
    show "\<forall>u. cu_last_message_time u = None \<longrightarrow> msg_time u = cu_last_active u"
      using c by (rule conjunct1)
  next
    show "\<forall>u t. cu_last_message_time u = Some t \<longrightarrow> msg_time u = t"
      using c by (rule conjunct2)
  next
    show "\<forall>i j. i < j \<and> j < length (user_conversations d) \<longrightarrow>
         (unread_count (user_conversations d ! j) > 0
            \<longrightarrow> unread_count (user_conversations d ! i) > 0)
       \<and> ((unread_count (user_conversations d ! i) > 0
              \<longleftrightarrow> unread_count (user_conversations d ! j) > 0)
            \<longrightarrow> (case (last_message_time (user_conversations d ! i),
                        last_message_time (user_conversations d ! j)) of
                   (Some s, Some t) \<Rightarrow> t \<le> s
                 | (None, Some t) \<Rightarrow> False
                 | _ \<Rightarrow> True))"
      by (intro allI impI, elim conjE, rule e)
  qed
qed

theorem conversation_list_order_witness:
  "map cu_id (sortedUsers ''owner-1'' ex_chat_users)
     = [''15557770000'', ''15559990000'', ''15551234567'']
   \<and> (1::nat) < 2 \<and> 2 < length (sortedUsers ''owner-1'' ex_chat_users)
   \<and> cu_last_message_time (sortedUsers ''owner-1'' ex_chat_users ! 1) = None
   \<and> msg_time (sortedUsers ''owner-1'' ex_chat_users ! 1)
       = cu_last_active (sortedUsers ''owner-1'' ex_chat_users ! 1)
   \<and> msg_time (sortedUsers ''owner-1'' ex_chat_users ! 2)
       \<le> msg_time (sortedUsers ''owner-1'' ex_chat_users ! 1)
   \<and> 2 < length (user_conversations ex_db_idle)
   \<and> (case (last_message_time (user_conversations ex_db_idle ! 1),
             last_message_time (user_conversations ex_db_idle ! 2)) of
         (Some s, Some t) \<Rightarrow> t \<le> s
       | (None, Some t) \<Rightarrow> False
       | _ \<Rightarrow> True)"
proof -
  note T = conversation_list_order [of "''owner-1''" ex_chat_users ex_db_idle]
  have ids: "map cu_id (sortedUsers ''owner-1'' ex_chat_users)
     = [''15557770000'', ''15559990000'', ''15551234567'']"
    by code_simp
  have len: "length (sortedUsers ''owner-1'' ex_chat_users) = 3"
    by code_simp
  have none: "cu_last_message_time (sortedUsers ''owner-1'' ex_chat_users ! 1) = None"
    by code_simp
  have tier: "unread_or_0 (sortedUsers ''owner-1'' ex_chat_users ! 1) = 0"
    "unread_or_0 (sortedUsers ''owner-1'' ex_chat_users ! 2) = 0"
    by code_simp+
  have vlen: "length (user_conversations ex_db_idle) = 3"
    by code_simp
  have vtier: "unread_count (user_conversations ex_db_idle ! 1) = 0"
    "unread_count (user_conversations ex_db_idle ! 2) = 0"
    by code_simp+
  from T have B: "\<forall>i j. i < j \<and> j < length (sortedUsers ''owner-1'' ex_chat_users) \<longrightarrow>
         (unread_or_0 (sortedUsers ''owner-1'' ex_chat_users ! j) > 0
            \<longrightarrow> unread_or_0 (sortedUsers ''owner-1'' ex_chat_users ! i) > 0)
       \<and> ((unread_or_0 (sortedUsers ''owner-1'' ex_chat_users ! i) > 0
             \<longleftrightarrow> unread_or_0 (sortedUsers ''owner-1'' ex_chat_users ! j) > 0)
            \<longrightarrow> msg_time (sortedUsers ''owner-1'' ex_chat_users ! j)
                 \<le> msg_time (sortedUsers ''owner-1'' ex_chat_users ! i))"
    by (elim conjE)
  from T have C: "\<forall>u. cu_last_message_time u = None \<longrightarrow> msg_time u = cu_last_active u"
    by (elim conjE)
  from T have E: "\<forall>i j. i < j \<and> j < length (user_conversations ex_db_idle) \<longrightarrow>
         (unread_count (user_conversations ex_db_idle ! j) > 0
            \<longrightarrow> unread_count (user_conversations ex_db_idle ! i) > 0)
       \<and> ((unread_count (user_conversations ex_db_idle ! i) > 0
              \<longleftrightarrow> unread_count (user_conversations ex_db_idle ! j) > 0)
            \<longrightarrow> (case (last_message_time (user_conversations ex_db_idle ! i),
                        last_message_time (user_conversations ex_db_idle ! j)) of
                   (Some s, Some t) \<Rightarrow> t \<le> s
                 | (None, Some t) \<Rightarrow> False
                 | _ \<Rightarrow> True))"
    by (elim conjE)
  have b12: "msg_time (sortedUsers ''owner-1'' ex_chat_users ! 2)
       \<le> msg_time (sortedUsers ''owner-1'' ex_chat_users ! 1)"
    using B [rule_format, of 1 2] len tier by simp
  have c1: "msg_time (sortedUsers ''owner-1'' ex_chat_users ! 1)
       = cu_last_active (sortedUsers ''owner-1'' ex_chat_users ! 1)"
    using C [rule_format, OF none] .
  have e12: "(case (last_message_time (user_conversations ex_db_idle ! 1),
             last_message_time (user_conversations ex_db_idle ! 2)) of
         (Some s, Some t) \<Rightarrow> t \<le> s
       | (None, Some t) \<Rightarrow> False
       | _ \<Rightarrow> True)"
    using E [rule_format, of 1 2] vlen vtier by simp
  show ?thesis
    using ids len none b12 c1 vlen e12 by simp
qed

text \<open>
  Among the rows of the view of the schema dump other than the viewer's own, the contact
  \<open>15559990000\<close>, without a message and last active at 900, stands after the contact
  \<open>15551234567\<close>, whose last message is of 100 and who has no unread message either: the
  view does not place it by its last activity.
\<close>

theorem user_conversations_no_message_last:
  "map (\<lambda>r. (uc_id r, unread_count r, last_message_time r, uc_last_active r))
     (filter (\<lambda>r. uc_id r \<noteq> ''owner-1'') (user_conversations ex_db_idle))
   = [(''15551234567'', 0, Some 100, 100), (''15559990000'', 0, None, 900)]"
  by code_simp

section \<open>Unread counts of a group\<close>








section \<open>Outbound sends\<close>

lemma messages_after_insert:
  "messages (case insert_message mo d of Inl e \<Rightarrow> d | Inr d' \<Rightarrow> d')
   = (if insert_message mo d = Inl DuplicateMessage \<or> insert_message mo d = Inl ForeignKeyViolation
      then messages d else messages d @ [row_of mo])"
  by (auto simp: insert_message_def split: if_splits)

text \<open>
  C8, amended. When the provider's answer to a send is not a 2xx response (or the request
  fails), the route \<open>send-message\<close> answers with a status that is not ok and leaves the
  database as it was; the route \<open>send-template\<close> answers 500 and the broadcast counts the
  member as failed, both with the message table as it was. The chat page's
  \<open>handleSendMessage\<close> then reports the failure and inserts the fallback row (sender the
  user, receiver the contact, unread), unless its id is taken or one of the two parties
  has no row in \<open>users\<close>.
\<close>

theorem failed_send_store:
  assumes "case response of FetchFailed \<Rightarrow> True | Response status messageId \<Rightarrow> \<not> ok status"
  shows "snd (send_message_POST user configured to message response timestamp' generated d) = d
       \<and> \<not> ok (fst (send_message_POST user configured to message response timestamp' generated d))
       \<and> messages (snd (send_template_POST userId settings to templateName customer_name text'
                          response now timestamp' d)) = messages d
       \<and> \<not> ok (fst (send_template_POST userId settings to templateName customer_name text'
                        response now timestamp' d))
       \<and> messages (snd (broadcast_member account groupId message templateName templateData
                          rendered timestamp' now (\<lambda>_. response) gen member (res, d)))
         = messages d
       \<and> fst (broadcast_member account groupId message templateName templateData
                 rendered timestamp' now (\<lambda>_. response) gen member (res, d))
         = res\<lparr>failed := failed res + 1\<rparr>
       \<and> handleSendMessage account selected content' configured response timestamp' generated
            now fallback_id d
         = (True,
            if fallback_id \<in> set (map m_id (messages d))
               \<or> as_id account \<notin> set (map u_id (users d))
               \<or> selected \<notin> set (map u_id (users d))
            then d
            else d\<lparr>messages := messages d @
                     [\<lparr>m_id = fallback_id, sender_id = as_id account, receiver_id = selected,
                       content = content', timestamp = now, is_sent_by_me = True,
                       message_type = ''text'', media_data = None, is_read = False,
                       read_at = None\<rparr>]\<rparr>)"
proof -
  have route: "snd (send_message_POST u configured t m response timestamp' generated d) = d
       \<and> \<not> ok (fst (send_message_POST u configured t m response timestamp' generated d))"
    for u t m
    using assms
    by (auto simp: send_message_POST_def ok_def split: option.splits provider_response.splits)
  have template: "messages (snd (send_template_POST userId settings to templateName customer_name
                          text' response now timestamp' d)) = messages d
       \<and> \<not> ok (fst (send_template_POST userId settings to templateName customer_name text'
                        response now timestamp' d))"
    using assms
    by (auto simp: send_template_POST_def ok_def Let_def
             split: option.splits provider_response.splits)
  have member: "messages (snd (broadcast_member account groupId message templateName templateData
                          rendered timestamp' now (\<lambda>_. response) gen member (res, d)))
         = messages d
       \<and> fst (broadcast_member account groupId message templateName templateData
                 rendered timestamp' now (\<lambda>_. response) gen member (res, d))
         = res\<lparr>failed := failed res + 1\<rparr>"
    using assms
    by (auto simp: broadcast_member_def Let_def
             split: option.splits provider_response.splits)
  obtain st where st: "send_message_POST (Some account) configured (Some selected)
      (Some content') response timestamp' generated d = (st, d)" "\<not> ok st"
    using route [of "Some account" "Some selected" "Some content'"]
    by (metis prod.collapse)
  have client: "handleSendMessage account selected content' configured response timestamp'
            generated now fallback_id d
         = (True,
            if fallback_id \<in> set (map m_id (messages d))
               \<or> as_id account \<notin> set (map u_id (users d))
               \<or> selected \<notin> set (map u_id (users d))
            then d
            else d\<lparr>messages := messages d @
                     [\<lparr>m_id = fallback_id, sender_id = as_id account, receiver_id = selected,
                       content = content', timestamp = now, is_sent_by_me = True,
                       message_type = ''text'', media_data = None, is_read = False,
                       read_at = None\<rparr>]\<rparr>)"
    unfolding handleSendMessage_def st Let_def
    using st(2) by (simp add: insert_message_def row_of_def)
  show ?thesis
    using route [of user to message] template member client by simp
qed

theorem failed_send_store_witness:
  "(case Response 400 None of FetchFailed \<Rightarrow> True | Response status messageId \<Rightarrow> \<not> ok status)
   \<and> send_message_POST (Some ex_session) True (Some ''15551234567'') (Some ''Hello'')
        (Response 400 None) 5000 ''outgoing_1'' ex_db = (400, ex_db)
   \<and> send_template_POST ''owner-1'' True (Some ''15551234567'') (Some ''hello_world'') None None
        (Response 400 None) 5000 5001 ex_db = (500, ex_db)
   \<and> ''fallback_1'' \<notin> set (map m_id (messages ex_db))
   \<and> as_id ex_session \<in> set (map u_id (users ex_db))
   \<and> ''15551234567'' \<in> set (map u_id (users ex_db))
   \<and> handleSendMessage ex_session ''15551234567'' ''Hello'' True (Response 400 None) 5000
        ''outgoing_1'' 5002 ''fallback_1'' ex_db
     = (True, ex_db\<lparr>messages := [\<lparr>m_id = ''fallback_1'', sender_id = ''owner-1'',
                                    receiver_id = ''15551234567'', content = ''Hello'',
                                    timestamp = 5002, is_sent_by_me = True,
                                    message_type = ''text'', media_data = None,
                                    is_read = False, read_at = None\<rparr>]\<rparr>)"
proof -
  have h: "case Response 400 None of FetchFailed \<Rightarrow> True
           | Response status messageId \<Rightarrow> \<not> ok status"
    by (simp add: ok_def)
  have r: "send_message_POST (Some ex_session) True (Some ''15551234567'') (Some ''Hello'')
        (Response 400 None) 5000 ''outgoing_1'' ex_db = (400, ex_db)"
    by (simp add: send_message_POST_def js_or_def ok_def)
  have t: "send_template_POST ''owner-1'' True (Some ''15551234567'') (Some ''hello_world'') None
        None (Response 400 None) 5000 5001 ex_db = (500, ex_db)"
    by (simp add: send_template_POST_def js_or_def ok_def find_user_def ex_db_def ex_user_def)
  have f: "''fallback_1'' \<notin> set (map m_id (messages ex_db))"
    "as_id ex_session \<in> set (map u_id (users ex_db))"
    "''15551234567'' \<in> set (map u_id (users ex_db))"
    by (simp_all add: ex_db_def ex_user_def ex_session_def)
  have e: "as_id ex_session = ''owner-1''" "messages ex_db = []"
    by (simp_all add: ex_session_def ex_db_def)
  have c: "handleSendMessage ex_session ''15551234567'' ''Hello'' True (Response 400 None) 5000
        ''outgoing_1'' 5002 ''fallback_1'' ex_db
     = (True, ex_db\<lparr>messages := [\<lparr>m_id = ''fallback_1'', sender_id = ''owner-1'',
                                    receiver_id = ''15551234567'', content = ''Hello'',
                                    timestamp = 5002, is_sent_by_me = True,
                                    message_type = ''text'', media_data = None,
                                    is_read = False, read_at = None\<rparr>]\<rparr>)"
    using failed_send_store [OF h, where d = ex_db and account = ex_session
        and selected = "''15551234567''" and content' = "''Hello''" and configured = True
        and timestamp' = 5000 and generated = "''outgoing_1''" and now = 5002
        and fallback_id = "''fallback_1''"] f
    by (simp add: e)
  show ?thesis using h r t f c by simp
qed

text \<open>
  The provider answers the text \<open>Hello\<close> of \<open>owner-1\<close> to \<open>15551234567\<close> with status
  400. The route answers 400 and writes nothing; \<open>handleSendMessage\<close> then stores the row
  \<open>fallback_1\<close> in the message table, which was empty.
\<close>

theorem failed_send_fallback_row:
  "send_message_POST (Some ex_session) True (Some ''15551234567'') (Some ''Hello'')
     (Response 400 None) 5000 ''outgoing_1'' ex_db = (400, ex_db)
   \<and> messages ex_db = []
   \<and> map (\<lambda>m. (m_id m, sender_id m, receiver_id m, content m))
        (messages (snd (handleSendMessage ex_session ''15551234567'' ''Hello'' True
                          (Response 400 None) 5000 ''outgoing_1'' 5002 ''fallback_1'' ex_db)))
     = [(''fallback_1'', ''owner-1'', ''15551234567'', ''Hello'')]"
  by (simp add: handleSendMessage_def send_message_POST_def js_or_def ok_def insert_message_def
      row_of_def ex_db_def ex_user_def ex_session_def)

section \<open>Sender and receiver of the stored messages\<close>

lemma two_parties_insert:
  assumes "two_parties d" "mo_sender_id mo \<noteq> mo_receiver_id mo"
  shows "two_parties (case insert_message mo d of Inl e \<Rightarrow> d | Inr d' \<Rightarrow> d')"
  using assms
  by (auto simp: two_parties_def insert_message_def row_of_def split: if_splits)

lemma two_parties_messages:
  "messages d' = messages d \<Longrightarrow> two_parties d' = two_parties d"
  by (simp add: two_parties_def)

lemma two_parties_send_message:
  assumes "two_parties d" "js_or to [] \<noteq> as_id user"
  shows "two_parties (snd (send_message_POST (Some user) configured to message response
                             timestamp' generated d))"
proof -
  have "two_parties (upsert_user i n t
          (case insert_message mo d of Inl e \<Rightarrow> d | Inr d' \<Rightarrow> d'))"
    if "mo_sender_id mo \<noteq> mo_receiver_id mo" for i n t mo
    using two_parties_insert [OF assms(1) that]
    by (simp add: two_parties_messages [of "upsert_user i n t _"])
  then show ?thesis
    using assms
    by (auto simp: send_message_POST_def Let_def split: provider_response.splits)
qed

lemma two_parties_handleSendMessage:
  assumes "two_parties d" "selected \<noteq> as_id user"
  shows "two_parties (snd (handleSendMessage user selected content' configured response
                             timestamp' generated now fallback_id d))"
proof -
  let ?r = "send_message_POST (Some user) configured (Some selected) (Some content') response
              timestamp' generated d"
  have 1: "two_parties (snd ?r)"
    using assms by (intro two_parties_send_message) (auto simp: js_or_def)
  have 2: "two_parties (case insert_message mo (snd ?r) of Inl e \<Rightarrow> snd ?r | Inr d' \<Rightarrow> d')"
    if "mo_sender_id mo \<noteq> mo_receiver_id mo" for mo
    using two_parties_insert [OF 1 that] .
  show ?thesis
    unfolding handleSendMessage_def Let_def
    using 1 2 [of "\<lparr>mo_id = fallback_id, mo_sender_id = as_id user,
                   mo_receiver_id = selected, mo_content = content',
                   mo_timestamp = now, mo_is_sent_by_me = True, mo_is_read = None,
                   mo_message_type = Some ''text'', mo_media_data = None\<rparr>"] assms(2)
    by (auto split: prod.splits sum.splits)
qed

lemma two_parties_send_template:
  assumes "two_parties d" "js_or to [] \<noteq> userId"
  shows "two_parties (snd (send_template_POST userId settings to templateName customer_name
                             text' response now timestamp' d))"
proof -
  have snd_case: "snd (case x of Inl e \<Rightarrow> (200, d1) | Inr d2 \<Rightarrow> (200, d2))
                  = (case x of Inl e \<Rightarrow> d1 | Inr d2 \<Rightarrow> d2)"
    for x :: "error + db" and d1
    by (cases x) auto
  show ?thesis
    unfolding send_template_POST_def Let_def
    using assms
    by (auto simp: two_parties_def messages_after_insert row_of_def snd_case
             split: provider_response.splits option.splits)
qed

lemma two_parties_broadcast_member:
  assumes "two_parties (snd acc)" "digits (user_id member) \<noteq> as_id user"
  shows "two_parties (snd (broadcast_member user groupId message templateName templateData
                             rendered timestamp' now response generated member acc))"
proof -
  obtain res d where acc: "acc = (res, d)" by (cases acc)
  show ?thesis
    unfolding acc broadcast_member_def Let_def
    using assms unfolding acc
    by (auto simp: two_parties_def messages_after_insert row_of_def
             split: provider_response.splits option.splits)
qed

lemma two_parties_broadcast_fold:
  assumes "two_parties (snd acc)" "\<forall>gm \<in> set ms. digits (user_id gm) \<noteq> as_id user"
  shows "two_parties (snd (fold (broadcast_member user groupId message templateName templateData
                                   rendered timestamp' now response generated) ms acc))"
  using assms
proof (induction ms arbitrary: acc)
  case Nil
  then show ?case by simp
next
  case (Cons gm ms)
  have "two_parties (snd (broadcast_member user groupId message templateName templateData
                             rendered timestamp' now response generated gm acc))"
    using Cons.prems by (intro two_parties_broadcast_member) auto
  then show ?case
    using Cons.IH Cons.prems by simp
qed

lemma webhook_receiver_other:
  assumes "phoneNumber \<noteq> js_or businessOwnerId ''whatsapp-business-account''"
    "webhook_receiver businessOwnerId phoneNumber ts d = (receiverId, d2)"
  shows "receiverId \<noteq> phoneNumber \<and> messages d2 = messages d"
proof -
  have first: "u_id u \<noteq> p" if "filter (\<lambda>u. u_id u \<noteq> p) us = u # rest" for u p us rest
  proof -
    have "u \<in> set (filter (\<lambda>u. u_id u \<noteq> p) us)" unfolding that by simp
    then show ?thesis by simp
  qed
  show ?thesis
  proof (cases "js_or businessOwnerId [] \<noteq> []")
    case True
    then have "js_or businessOwnerId ''whatsapp-business-account'' = js_or businessOwnerId []"
      by (auto simp: js_or_def split: option.splits)
    then show ?thesis using assms True by (auto simp: webhook_receiver_def)
  next
    case False
    then have "js_or businessOwnerId ''whatsapp-business-account'' = ''whatsapp-business-account''"
      by (auto simp: js_or_def split: option.splits if_splits)
    then show ?thesis
      using assms False
      by (auto simp: webhook_receiver_def split: list.splits dest: first)
  qed
qed

lemma two_parties_webhook_message:
  assumes "two_parties d"
    "wm_from message \<noteq> js_or businessOwnerId ''whatsapp-business-account''"
  shows "two_parties (fst (webhook_message businessOwnerId getMediaUrl contacts message ts d))"
proof -
  have fst_case: "fst (case x of Inl e \<Rightarrow> (d2, Some e) | Inr d3 \<Rightarrow> (d3, None))
                  = (case x of Inl e \<Rightarrow> d2 | Inr d3 \<Rightarrow> d3)" for x :: "error + db" and d2
    by (cases x) auto
  define d1 where "d1 = (case find_user (wm_from message) d of
                  None \<Rightarrow> insert_user (wm_from message)
                            (js_or (Option.bind (find (\<lambda>c. wa_id c = wm_from message) contacts)
                                      profile_name) (wm_from message)) ts d
                | Some _ \<Rightarrow> update_last_active (wm_from message) ts d)"
  have m1: "messages d1 = messages d"
    by (simp add: d1_def split: option.splits)
  obtain receiverId d2 where r: "webhook_receiver businessOwnerId (wm_from message) ts d1
      = (receiverId, d2)"
    by (cases "webhook_receiver businessOwnerId (wm_from message) ts d1")
  from webhook_receiver_other [OF assms(2) r]
  have ne: "receiverId \<noteq> wm_from message" and m2: "messages d2 = messages d"
    using m1 by simp_all
  have tp: "two_parties d2" using assms(1) m2 by (simp add: two_parties_def)
  obtain c t md where p: "processMessageContent message = (c, t, md)"
    by (cases "processMessageContent message") auto
  show ?thesis
    unfolding webhook_message_def Let_def p prod.case d1_def [symmetric] r fst_case
    by (rule two_parties_insert [OF tp]) (use ne in simp)
qed

lemma two_parties_webhook_loop:
  assumes "two_parties d"
    "\<forall>w \<in> set msgs. wm_from w \<noteq> js_or businessOwnerId ''whatsapp-business-account''"
  shows "two_parties (fst (snd (webhook_loop businessOwnerId getMediaUrl contacts msgs d lg)))"
  using assms
proof (induction msgs arbitrary: d lg)
  case Nil
  then show ?case by simp
next
  case (Cons w msgs)
  show ?case
  proof (cases "wm_timestamp w")
    case None
    then show ?thesis using Cons.prems by simp
  next
    case (Some secs)
    obtain d' e where step:
      "webhook_message businessOwnerId getMediaUrl contacts w (secs * 1000) d = (d', e)"
      by (cases "webhook_message businessOwnerId getMediaUrl contacts w (secs * 1000) d")
    have "two_parties d'"
      using two_parties_webhook_message [of d w businessOwnerId getMediaUrl contacts "secs * 1000"]
        Cons.prems step by simp
    then show ?thesis
      using Cons.IH [of d' "lg @ [e]"] Cons.prems Some step by simp
  qed
qed
text \<open>
  C9, amended. No append path compares the sender of a message with its receiver. Starting
  from a store in which every message has two different parties, the store stays so
  under an outbound text send whose \<open>to\<close> is not the sender's own id, under the fallback
  insert of the chat page for a contact other than the user, under a template send whose
  \<open>to\<close> is not the configured account, under a broadcast by the owner of a group whose
  members' digits all differ from the owner's id, and under a webhook delivery whose
  senders all differ from \<open>WHATSAPP_BUSINESS_OWNER_ID\<close> (from the placeholder account when
  that is not set).
\<close>

theorem sender_receiver_differ_preserved:
  assumes "two_parties d"
  shows "(js_or to [] \<noteq> as_id user \<longrightarrow>
            two_parties (snd (send_message_POST (Some user) configured to message response
                                timestamp' generated d)))
       \<and> (selected \<noteq> as_id user \<longrightarrow>
            two_parties (snd (handleSendMessage user selected content' configured response
                                timestamp' generated now fallback_id d)))
       \<and> (js_or to [] \<noteq> userId \<longrightarrow>
            two_parties (snd (send_template_POST userId settings to templateName customer_name
                                text' response now timestamp' d)))
       \<and> ((\<forall>gm \<in> set (group_members d).
              group_id gm = groupId \<longrightarrow> digits (user_id gm) \<noteq> as_id user) \<longrightarrow>
            two_parties (snd (snd (broadcast_POST (Some user) groupId message templateName
                                     templateData rendered settings timestamp' now responses
                                     gen d))))
       \<and> ((\<forall>w \<in> set msgs. wm_from w \<noteq> js_or businessOwnerId ''whatsapp-business-account'') \<longrightarrow>
            two_parties (fst (snd (webhook_POST businessOwnerId getMediaUrl contacts msgs d))))"
proof (intro conjI impI)
  assume "js_or to [] \<noteq> as_id user"
  then show "two_parties (snd (send_message_POST (Some user) configured to message response
                                timestamp' generated d))"
    using assms by (rule two_parties_send_message [rotated])
next
  assume "selected \<noteq> as_id user"
  then show "two_parties (snd (handleSendMessage user selected content' configured response
                                timestamp' generated now fallback_id d))"
    using assms by (rule two_parties_handleSendMessage [rotated])
next
  assume "js_or to [] \<noteq> userId"
  then show "two_parties (snd (send_template_POST userId settings to templateName customer_name
                                text' response now timestamp' d))"
    using assms by (rule two_parties_send_template [rotated])
next
  assume m: "\<forall>gm \<in> set (group_members d).
              group_id gm = groupId \<longrightarrow> digits (user_id gm) \<noteq> as_id user"
  have "two_parties (snd (fold (broadcast_member user groupId message templateName templateData
                                   rendered timestamp' now responses gen)
                            (filter (\<lambda>gm. group_id gm = groupId) (group_members d))
                            (\<lparr>success = 0, failed = 0\<rparr>, d)))"
    using assms m by (intro two_parties_broadcast_fold) auto
  then show "two_parties (snd (snd (broadcast_POST (Some user) groupId message templateName
                                     templateData rendered settings timestamp' now responses
                                     gen d)))"
    using assms by (auto simp: broadcast_POST_def split: prod.splits)
next
  assume "\<forall>w \<in> set msgs. wm_from w \<noteq> js_or businessOwnerId ''whatsapp-business-account''"
  then show "two_parties (fst (snd (webhook_POST businessOwnerId getMediaUrl contacts msgs d)))"
    unfolding webhook_POST_def using assms by (intro two_parties_webhook_loop)
qed

theorem sender_receiver_differ_preserved_witness:
  "two_parties ex_db
   \<and> js_or (Some ''15551234567'') [] \<noteq> as_id ex_session
   \<and> two_parties (snd (send_message_POST (Some ex_session) True (Some ''15551234567'')
                         (Some ''Hello'') (Response 200 (Some ''wamid.OUT'')) 5000
                         ''outgoing_1'' ex_db))
   \<and> wm_from ex_inbound \<noteq> js_or (Some ''owner-1'') ''whatsapp-business-account''
   \<and> two_parties (fst (snd (webhook_POST (Some ''owner-1'') (\<lambda>_. None) [] [ex_inbound] ex_db)))
   \<and> map (\<lambda>m. (m_id m, sender_id m, receiver_id m))
        (messages (fst (snd (webhook_POST (Some ''owner-1'') (\<lambda>_. None) [] [ex_inbound] ex_db))))
     = [(''wamid.AAA'', ''15551234567'', ''owner-1'')]"
proof -
  have h: "two_parties ex_db"
    by (simp add: two_parties_def ex_db_def)
  note T = sender_receiver_differ_preserved [OF h, where user = ex_session
      and to = "Some ''15551234567''" and msgs = "[ex_inbound]"
      and businessOwnerId = "Some ''owner-1''"]
  have a: "js_or (Some ''15551234567'') [] \<noteq> as_id ex_session"
    by (simp add: js_or_def ex_session_def)
  have b: "\<forall>w \<in> set [ex_inbound].
             wm_from w \<noteq> js_or (Some ''owner-1'') ''whatsapp-business-account''"
    by (simp add: js_or_def ex_inbound_def)
  have c: "map (\<lambda>m. (m_id m, sender_id m, receiver_id m))
        (messages (fst (snd (webhook_POST (Some ''owner-1'') (\<lambda>_. None) [] [ex_inbound] ex_db))))
     = [(''wamid.AAA'', ''15551234567'', ''owner-1'')]"
    by (simp add: webhook_POST_def webhook_message_def webhook_receiver_def ex_inbound_def
        ex_db_def ex_user_def processMessageContent_def js_or_def find_user_def
        update_last_active_def insert_message_def row_of_def Let_def)
  have 1: "two_parties (snd (send_message_POST (Some ex_session) True (Some ''15551234567'')
                         (Some ''Hello'') (Response 200 (Some ''wamid.OUT'')) 5000
                         ''outgoing_1'' ex_db))"
    using T [THEN conjunct1, THEN mp, OF a] .
  have 2: "two_parties (fst (snd (webhook_POST (Some ''owner-1'') (\<lambda>_. None) [] [ex_inbound]
                                     ex_db)))"
    using T [THEN conjunct2, THEN conjunct2, THEN conjunct2, THEN conjunct2, THEN mp, OF b] .
  show ?thesis
    using h a b c 1 2 by simp
qed

text \<open>
  The route \<open>send-message\<close>, called by \<open>owner-1\<close> with \<open>to = 'owner-1'\<close> and answered 200
  by the provider, stores a message from \<open>owner-1\<close> to \<open>owner-1\<close>; the webhook, with
  \<open>WHATSAPP_BUSINESS_OWNER_ID = '15551234567'\<close>, stores the inbound message of
  \<open>15551234567\<close> with that number as its receiver.
\<close>

theorem sender_equals_receiver_stored:
  "two_parties ex_db
   \<and> map (\<lambda>m. (m_id m, sender_id m, receiver_id m))
        (messages (snd (send_message_POST (Some ex_session) True (Some ''owner-1'')
                          (Some ''Hello'') (Response 200 (Some ''wamid.SELF'')) 5000
                          ''outgoing_1'' ex_db)))
     = [(''wamid.SELF'', ''owner-1'', ''owner-1'')]
   \<and> map (\<lambda>m. (m_id m, sender_id m, receiver_id m))
        (messages (fst (snd (webhook_POST (Some ''15551234567'') (\<lambda>_. None) [] [ex_inbound]
                               ex_db))))
     = [(''wamid.AAA'', ''15551234567'', ''15551234567'')]"
  by (simp add: two_parties_def send_message_POST_def webhook_POST_def webhook_message_def
      webhook_receiver_def ex_inbound_def ex_session_def upsert_user_def
      ex_db_def ex_user_def processMessageContent_def js_or_def find_user_def ok_def
      update_last_active_def insert_message_def row_of_def Let_def)

section \<open>Read state of outbound messages\<close>

text \<open>A template send and a broadcast store their rows read: no unread count changes.\<close>

lemma send_template_unread_count:
  "get_unread_count a b (snd (send_template_POST userId settings to templateName customer_name
                                text' response now timestamp' d))
   = get_unread_count a b d"
proof -
  have snd_case: "snd (case x of Inl e \<Rightarrow> (200, d1) | Inr d2 \<Rightarrow> (200, d2))
                  = (case x of Inl e \<Rightarrow> d1 | Inr d2 \<Rightarrow> d2)"
    for x :: "error + db" and d1
    by (cases x) auto
  show ?thesis
    unfolding send_template_POST_def Let_def
    by (auto simp: snd_case get_unread_count_def messages_after_insert row_of_def
             split: provider_response.splits option.splits)
qed

lemma broadcast_member_unread_count:
  "get_unread_count a b (snd (broadcast_member user groupId message templateName templateData
                                rendered timestamp' now response generated member acc))
   = get_unread_count a b (snd acc)"
proof -
  obtain res d where acc: "acc = (res, d)" by (cases acc)
  show ?thesis
    unfolding acc broadcast_member_def Let_def
    by (auto simp: get_unread_count_def messages_after_insert row_of_def
             split: provider_response.splits option.splits)
qed

text \<open>
  C10. Every outbound row is to be stored with \<open>is_read = true\<close>, so that a send raises
  no unread count. The text send breaks this: \<open>owner-1\<close> sends the text \<open>Hello\<close> to
  \<open>15551234567\<close> through the route \<open>send-message\<close> and the provider answers 200 with
  the id \<open>wamid.OUT\<close>; the row is stored with \<open>is_read = false\<close>, the default of the
  column, and the unread count of \<open>15551234567\<close> from \<open>owner-1\<close> goes from 0 to 1.
\<close>

theorem send_message_stored_unread:
  "map (\<lambda>m. (m_id m, sender_id m, receiver_id m, is_read m))
     (messages (snd (send_message_POST (Some ex_session) True (Some ''15551234567'')
                       (Some ''Hello'') (Response 200 (Some ''wamid.OUT'')) 5000
                       ''outgoing_1'' ex_db)))
   = [(''wamid.OUT'', ''owner-1'', ''15551234567'', False)]
   \<and> get_unread_count ''15551234567'' ''owner-1'' ex_db = 0
   \<and> get_unread_count ''15551234567'' ''owner-1''
       (snd (send_message_POST (Some ex_session) True (Some ''15551234567'')
               (Some ''Hello'') (Response 200 (Some ''wamid.OUT'')) 5000
               ''outgoing_1'' ex_db)) = 1"
  by (simp add: get_unread_count_def send_message_POST_def ex_session_def upsert_user_def
      ex_db_def ex_user_def js_or_def find_user_def ok_def insert_message_def row_of_def Let_def)

section \<open>Importing contacts\<close>

lemma digits_digits [simp]: "digits (digits s) = digits s"
  by (simp add: digits_def)

lemma endsWith_refl [simp]: "endsWith s s"
  by (simp add: endsWith_def)


















end
